theory Spec2Isabelle
  imports Complex_Main "HOL-Library.AList"
begin

section \<open>DLWrapper.train: the epoch loop with early stopping\<close>

text \<open>
  Python floats are modelled as real numbers; \<open>float("inf")\<close>, the initial value of
  \<open>best_loss\<close>, is the extra value \<open>Infinity\<close>. Rounding and NaN are outside the model: the
  validation loss of an epoch is a finite real.
\<close>

datatype pyfloat = Infinity | Float real

text \<open>\<open>best_loss - min_delta\<close>\<close>

fun pyfloat_sub :: "pyfloat \<Rightarrow> real \<Rightarrow> pyfloat" where
  "pyfloat_sub Infinity d = Infinity"
| "pyfloat_sub (Float b) d = Float (b - d)"

text \<open>\<open>val_loss <= x\<close> for a finite \<open>val_loss\<close>\<close>

fun le_pyfloat :: "real \<Rightarrow> pyfloat \<Rightarrow> bool" where
  "le_pyfloat v Infinity = True"
| "le_pyfloat v (Float b) = (v \<le> b)"


text \<open>The exceptions that the modelled code raises, as values.\<close>

datatype exn =
    Exception string
  | UnboundLocalError
  | FileNotFoundError
  | AttributeError
  | KeyError
  | IndexError
  | TypeError
  | ValueError

text \<open>The keyword arguments of \<open>train\<close> that steer the loop.\<close>

record train_args =
  epochs :: int
  patience :: int
  min_delta :: real
  save_weights :: bool

text \<open>
  The local variables of \<open>train\<close> and the file \<open>model.torch\<close> of the log directory.
  \<open>save_model\<close> stores the encoder together with the epoch number, so the file is
  modelled by the epoch whose weights it holds (\<open>None\<close>: no such file). A local that
  is not bound yet is \<open>None\<close>. \<open>epochs_done\<close> counts the passes of the loop body (each
  one call of \<open>_do_training\<close> and one of \<open>evaluate\<close>).
\<close>

record 'm train_state =
  best_loss :: pyfloat
  epoch_no_improvement :: nat
  best_metrics :: "'m option"
  val_metric_results :: "'m option"
  model_torch :: "nat option"
  epochs_done :: nat

text \<open>
  Lines 215 to 227: the validation step has returned \<open>(val_loss, val_metric_results)\<close>
  for this epoch, then the early-stopping bookkeeping runs.
\<close>

definition early_stopping ::
  "train_args \<Rightarrow> nat \<Rightarrow> real \<times> 'm \<Rightarrow> 'm train_state \<Rightarrow> 'm train_state" where
  "early_stopping a epoch r s =
     (let val_loss = fst r;
          s1 = s\<lparr>val_metric_results := Some (snd r), epochs_done := Suc (epochs_done s)\<rparr>
      in if le_pyfloat val_loss (pyfloat_sub (best_loss s) (min_delta a))
         then s1\<lparr>best_metrics := Some (snd r),
                 epoch_no_improvement := 0,
                 model_torch := (if save_weights a then Some epoch else model_torch s),
                 best_loss := Float val_loss\<rparr>
         else s1\<lparr>epoch_no_improvement := epoch_no_improvement s + 1\<rparr>)"

text \<open>Line 228: the test that guards \<open>break\<close>.\<close>

definition stop_training :: "train_args \<Rightarrow> 'm train_state \<Rightarrow> bool" where
  "stop_training a s = (patience a \<le> int (epoch_no_improvement s))"

text \<open>
  \<open>for epoch in range(epochs)\<close>: the first argument counts the epochs that are left,
  the second is \<open>epoch\<close>. The outcome of the training and validation passes of an
  epoch is given by \<open>val\<close>, since the encoder, the loss and the data are external.
  The logging after the test (lines 232 to 253) writes to TensorBoard only.
\<close>

fun train_loop ::
  "train_args \<Rightarrow> (nat \<Rightarrow> real \<times> 'm) \<Rightarrow> nat \<Rightarrow> nat \<Rightarrow> 'm train_state \<Rightarrow> 'm train_state" where
  "train_loop a val 0 epoch s = s"
| "train_loop a val (Suc n) epoch s =
     (let s' = early_stopping a epoch (val epoch) s
      in if stop_training a s' then s' else train_loop a val n (Suc epoch) s')"

text \<open>Lines 205 and 206, with the file \<open>model.torch\<close> as the run finds it.\<close>

definition init_state :: "nat option \<Rightarrow> 'm train_state" where
  "init_state file =
     \<lparr>best_loss = Infinity, epoch_no_improvement = 0, best_metrics = None,
      val_metric_results = None, model_torch = file, epochs_done = 0\<rparr>"

text \<open>
  What a completed \<open>train\<close> leaves behind: the content of \<open>best_metrics.json\<close> (the
  best metrics with the best loss under the key \<open>loss\<close>), the record appended to the
  shared \<open>val_metrics.json\<close> (the metrics of the last epoch), the epoch whose weights
  \<open>load_weights\<close> put back into the encoder, and the final values of the locals.
  When the last epoch is the best one, both names denote one dict and the appended
  record carries the key \<open>loss\<close> as well; the metrics are left abstract here.
\<close>

record 'm train_result =
  best_metrics_json :: "'m \<times> pyfloat"
  appended :: "'m"
  loaded :: nat
  final :: "'m train_state"

text \<open>
  Lines 205 to 263. \<open>best_metrics["loss"] = best_loss\<close> raises when no epoch has
  bound \<open>best_metrics\<close>; \<open>load_weights\<close> raises when there is no file to read.
\<close>

definition train ::
  "train_args \<Rightarrow> (nat \<Rightarrow> real \<times> 'm) \<Rightarrow> nat option \<Rightarrow> exn + 'm train_result" where
  "train a val file =
     (let s = train_loop a val (nat (epochs a)) 0 (init_state file)
      in case best_metrics s of
           None \<Rightarrow> Inl UnboundLocalError
         | Some bm \<Rightarrow>
             (case val_metric_results s of
                None \<Rightarrow> Inl UnboundLocalError
              | Some vm \<Rightarrow>
                  (case model_torch s of
                     None \<Rightarrow> Inl FileNotFoundError
                   | Some e \<Rightarrow>
                       Inr \<lparr>best_metrics_json = (bm, best_loss s), appended = vm,
                            loaded = e, final = s\<rparr>)))"


subsection \<open>The loss weight\<close>

text \<open>
  The argument \<open>weight\<close>: \<open>None\<close>, a Python list, a string, or the tensor that
  \<open>torch.FloatTensor(...).to(self.device)\<close> builds from a list.
\<close>

datatype 'a weight = PyNone | PyList "'a list" | PyStr string | FloatTensor "'a list"

record 'a dataset =
  get_balance :: "'a list"

text \<open>Lines 200 to 203 of \<open>train\<close>.\<close>

definition train_weight :: "'a dataset \<Rightarrow> 'a weight \<Rightarrow> 'a weight" where
  "train_weight train_dataset weight =
     (case weight of
        PyList xs \<Rightarrow> FloatTensor xs
      | PyStr w \<Rightarrow>
          if w = ''balanced'' then FloatTensor (get_balance train_dataset) else PyStr w
      | PyNone \<Rightarrow> PyNone
      | FloatTensor xs \<Rightarrow> FloatTensor xs)"

text \<open>
  Lines 268 and 269 of \<open>test\<close>: the value handed to \<open>evaluate\<close>, and from there to
  \<open>step_fn\<close> as \<open>loss_weight\<close>. The dataset is not consulted.
\<close>

definition test_weight :: "'a dataset \<Rightarrow> 'a weight \<Rightarrow> 'a weight" where
  "test_weight dataset weight =
     (case weight of
        PyList xs \<Rightarrow> FloatTensor xs
      | PyStr w \<Rightarrow> PyStr w
      | PyNone \<Rightarrow> PyNone
      | FloatTensor xs \<Rightarrow> FloatTensor xs)"

section \<open>DLWrapper.set\_metrics\<close>

text \<open>
  The metric objects of ignite and of \<open>icu_benchmarks.models.metrics\<close> are external;
  a metric is named by its constructor call. \<open>MAE sc\<close> is
  \<open>MAE(invert_transform=sc.inverse_transform)\<close>.
\<close>

datatype 'sc dl_metric =
    AveragePrecision
  | ROC_AUC
  | PrecisionRecallCurve
  | RocCurve
  | CalibrationCurve
  | MAE 'sc
  | MeanAbsoluteError
  | Accuracy
  | BalancedAccuracy

text \<open>
  The three output transforms of \<open>set_metrics\<close>:
  \<open>softmax_binary_output_transform\<close> returns \<open>softmax(y_pred, dim=1)[:, -1], y\<close>,
  \<open>softmax_multi_output_transform\<close> returns \<open>softmax(y_pred, dim=1), y\<close>, and
  \<open>dl_identity\<close> is \<open>lambda x: x\<close>.
\<close>

datatype dl_transform =
    softmax_binary_output_transform
  | softmax_multi_output_transform
  | dl_identity

text \<open>
  The attributes of a \<open>DLWrapper\<close> that \<open>set_metrics\<close> reads and writes.
  \<open>out_features\<close> is \<open>self.encoder.logit.out_features\<close>; a dict is an association
  list in insertion order; an attribute that is not set yet is \<open>None\<close>.
\<close>

record 'sc dl_wrapper =
  out_features :: int
  dl_scaler :: "'sc option"
  dl_output_transform :: "dl_transform option"
  dl_metrics :: "(string \<times> 'sc dl_metric) list option"

definition dl_set_metrics :: "'sc dl_wrapper \<Rightarrow> 'sc dl_wrapper" where
  "dl_set_metrics self =
     (if out_features self = 2 then
        self\<lparr>dl_output_transform := Some softmax_binary_output_transform,
             dl_metrics := Some [(''PR'', AveragePrecision), (''AUC'', ROC_AUC),
                                 (''PR_Curve'', PrecisionRecallCurve), (''ROC_Curve'', RocCurve),
                                 (''Calibration_Curve'', CalibrationCurve)]\<rparr>
      else if out_features self = 1 then
        (case dl_scaler self of
           Some sc \<Rightarrow>
             self\<lparr>dl_output_transform := Some dl_identity,
                  dl_metrics := Some [(''MAE'', MAE sc)]\<rparr>
         | None \<Rightarrow>
             self\<lparr>dl_output_transform := Some dl_identity,
                  dl_metrics := Some [(''MAE'', MeanAbsoluteError)]\<rparr>)
      else
        self\<lparr>dl_output_transform := Some softmax_multi_output_transform,
             dl_metrics := Some [(''Accuracy'', Accuracy),
                                 (''BalancedAccuracy'', BalancedAccuracy)]\<rparr>)"

section \<open>DLWrapper.step\_fn\<close>

text \<open>
  A batch element is a tuple. Positions are typed as the loader fills them: features,
  labels (one per position of the batch, flattened), mask (one truth value per
  position). Only the length of a tuple of another arity is ever inspected.
\<close>

datatype 'd element =
    Tuple0
  | Tuple1 'd
  | Tuple2 'd "real list"
  | Tuple3 'd "real list" "bool list"
  | TupleMore nat

fun len :: "'d element \<Rightarrow> nat" where
  "len Tuple0 = 0"
| "len (Tuple1 d) = 1"
| "len (Tuple2 d l) = 2"
| "len (Tuple3 d l m) = 3"
| "len (TupleMore n) = 4 + n"

text \<open>
  The encoder returns a tensor, or a pair of a tensor and an auxiliary loss. A tensor
  is given by its rows (one per position, each with \<open>last_dim\<close> entries) and the size
  of its last dimension.
\<close>

record tensor =
  rows :: "real list list"
  last_dim :: nat

datatype encoder_output = Out tensor | OutAux tensor real

text \<open>The two ways \<open>self.loss\<close> is called.\<close>

datatype 'w loss_call =
    Classification "real list list" "int list" 'w
  | Regression "real list" "real list"

text \<open>Truncation towards zero.\<close>

definition trunc :: "real \<Rightarrow> int" where
  "trunc x = (if 0 \<le> x then \<lfloor>x\<rfloor> else \<lceil>x\<rceil>)"

text \<open>
  \<open>.long()\<close> and \<open>.astype(int)\<close> convert to a 64-bit integer: the value truncated
  towards zero when that lies between \<open>-2^63\<close> and \<open>2^63 - 1\<close>. A value outside this
  range overflows the conversion; the result is then the smallest 64-bit integer, as
  the conversion instruction of x86 hardware gives it.
\<close>

definition long :: "real \<Rightarrow> int" where
  "long x =
     (if - (2 ^ 63) \<le> trunc x \<and> trunc x < 2 ^ 63 then trunc x else - (2 ^ 63))"

text \<open>
  \<open>torch.masked_select\<close> on tensors of matching shape keeps the entries whose mask
  is true (the loader yields labels and mask of one shape).
\<close>

definition masked_select :: "'a list \<Rightarrow> bool list \<Rightarrow> 'a list" where
  "masked_select xs m = map fst (filter snd (zip xs m))"

text \<open>Lines 113 to 130: features, labels and mask of an element.\<close>

fun unpack :: "'d element \<Rightarrow> exn + ('d \<times> real list \<times> bool list)" where
  "unpack (Tuple2 d labels) = Inr (d, labels, replicate (length labels) True)"
| "unpack (Tuple3 d labels m) = Inr (d, labels, m)"
| "unpack _ =
     Inl (Exception ''Loader should return either (data, label) or (data, label, mask)'')"

text \<open>
  Lines 131 to 143. The encoder and the loss function are external and given as
  functions. The result is \<open>(loss, out_flat, label_flat)\<close>.
\<close>

definition step_fn ::
  "('d \<Rightarrow> encoder_output) \<Rightarrow> ('w loss_call \<Rightarrow> real) \<Rightarrow> 'd element \<Rightarrow> 'w
     \<Rightarrow> exn + (real \<times> real list list \<times> real list)" where
  "step_fn encoder loss element loss_weight =
     (case unpack element of
        Inl e \<Rightarrow> Inl e
      | Inr (d, labels, m) \<Rightarrow>
          (let (out, aux_loss) =
                 (case encoder d of OutAux t a \<Rightarrow> (t, a) | Out t \<Rightarrow> (t, 0));
               out_flat = masked_select (rows out) m;
               label_flat = masked_select labels m
           in if 1 < last_dim out then
                Inr (loss (Classification out_flat (map long label_flat) loss_weight) + aux_loss,
                     out_flat, label_flat)
              else if last_dim out = 0 then Inl IndexError
              else
                Inr (loss (Regression (map hd out_flat) label_flat) + aux_loss,
                     out_flat, label_flat)))"

text \<open>
  Lines 285 to 296 of \<open>evaluate\<close>, as far as the loss goes: \<open>step_fn\<close> runs on the
  elements of the loader in turn and its losses are collected; an exception of
  \<open>step_fn\<close> is not caught and ends the pass. The result is the mean of the losses;
  with an empty loader the loop variable \<open>v\<close> is not bound. The metric objects that
  are updated along the way are external.
\<close>

fun batch_losses ::
  "('d \<Rightarrow> encoder_output) \<Rightarrow> ('w loss_call \<Rightarrow> real) \<Rightarrow> 'd element list \<Rightarrow> 'w
     \<Rightarrow> exn + real list" where
  "batch_losses encoder loss [] w = Inr []"
| "batch_losses encoder loss (elem # rest) w =
     (case step_fn encoder loss elem w of
        Inl e \<Rightarrow> Inl e
      | Inr (l, preds, target) \<Rightarrow>
          (case batch_losses encoder loss rest w of
             Inl e \<Rightarrow> Inl e
           | Inr ls \<Rightarrow> Inr (l # ls)))"

definition evaluate_loss ::
  "('d \<Rightarrow> encoder_output) \<Rightarrow> ('w loss_call \<Rightarrow> real) \<Rightarrow> 'd element list \<Rightarrow> 'w
     \<Rightarrow> exn + real" where
  "evaluate_loss encoder loss eval_loader w =
     (case batch_losses encoder loss eval_loader w of
        Inl e \<Rightarrow> Inl e
      | Inr eval_loss \<Rightarrow>
          if eval_loss = [] then Inl UnboundLocalError
          else Inr (sum_list eval_loss / real (length eval_loss)))"

section \<open>MLWrapper.set\_metrics\<close>

text \<open>
  \<open>self.model\<close> matters only through \<open>isinstance(self.model, lightgbm.basic.Booster)\<close>:
  a booster read back from a file, or one of the estimators configured for the wrapper.
\<close>

datatype ml_model = Booster | LGBMClassifier | LGBMRegressor | LogisticRegression

datatype ml_metric =
    average_precision_score
  | roc_auc_score
  | roc_curve
  | precision_recall_curve
  | accuracy_score
  | balanced_accuracy_score
  | mean_absolute_error

text \<open>
  The lambdas of \<open>set_metrics\<close>: \<open>lambda x: x\<close>, \<open>lambda x: x[:, 1]\<close>,
  \<open>lambda x: np.argmax(x, axis=-1)\<close> and
  \<open>lambda x: self.scaler.inverse_transform(x.reshape(-1, 1))\<close>.
\<close>

datatype ml_transform =
    ml_identity
  | select_column_1
  | argmax_last_axis
  | scaler_inverse_transform

record 'sc ml_wrapper =
  model :: ml_model
  ml_scaler :: "'sc option"
  ml_output_transform :: "ml_transform option"
  ml_label_transform :: "ml_transform option"
  ml_metrics :: "(string \<times> ml_metric) list option"

text \<open>\<open>len(np.unique(labels))\<close>\<close>

definition n_unique :: "real list \<Rightarrow> nat" where
  "n_unique labels = length (remdups labels)"

text \<open>
  \<open>np.all(labels[:10].astype(int) == labels[:10])\<close>: each of the first ten labels is
  converted to a 64-bit integer and compared with itself.
\<close>

definition first10_integer :: "real list \<Rightarrow> bool" where
  "first10_integer labels = list_all (\<lambda>x. real_of_int (long x) = x) (take 10 labels)"

definition ml_set_metrics :: "'sc ml_wrapper \<Rightarrow> real list \<Rightarrow> 'sc ml_wrapper" where
  "ml_set_metrics self labels =
     (if n_unique labels = 2 then
        self\<lparr>ml_output_transform :=
               Some (if model self = Booster then ml_identity else select_column_1),
             ml_label_transform := Some ml_identity,
             ml_metrics := Some [(''PR'', average_precision_score), (''AUC'', roc_auc_score),
                                 (''ROC'', roc_curve), (''PRC'', precision_recall_curve)]\<rparr>
      else if first10_integer labels then
        self\<lparr>ml_output_transform := Some argmax_last_axis,
             ml_label_transform := Some ml_identity,
             ml_metrics := Some [(''Accuracy'', accuracy_score),
                                 (''BalancedAccuracy'', balanced_accuracy_score)]\<rparr>
      else if ml_scaler self \<noteq> None then
        self\<lparr>ml_output_transform := Some scaler_inverse_transform,
             ml_label_transform := Some scaler_inverse_transform,
             ml_metrics := Some [(''MAE'', mean_absolute_error)]\<rparr>
      else
        self\<lparr>ml_output_transform := Some ml_identity,
             ml_label_transform := Some ml_identity,
             ml_metrics := Some [(''MAE'', mean_absolute_error)]\<rparr>)"

section \<open>Recipe steps\<close>

text \<open>
  A table maps column names to columns, in order, and carries the roles of its columns.
  What a column holds is left open. The data handed to a step is a table or a table
  grouped by key columns; \<open>data.obj\<close> is the table under a grouping.
\<close>

record 'c frame =
  cols :: "(string \<times> 'c) list"
  roles :: "(string \<times> string) list"

datatype 'c data = DataFrame "'c frame" | DataFrameGroupBy "'c frame" "string list"

fun obj :: "'c data \<Rightarrow> exn + 'c frame" where
  "obj (DataFrameGroupBy f keys) = Inr f"
| "obj (DataFrame f) = Inl AttributeError"

text \<open>The data after its table was changed in place.\<close>

fun with_obj :: "'c data \<Rightarrow> 'c frame \<Rightarrow> 'c data" where
  "with_obj (DataFrameGroupBy f keys) f' = DataFrameGroupBy f' keys"
| "with_obj (DataFrame f) f' = DataFrame f'"

text \<open>\<open>new_data[c] = col\<close>: an existing column is replaced where it stands, a new one is appended.\<close>

definition setitem :: "'c frame \<Rightarrow> string \<Rightarrow> 'c \<Rightarrow> 'c frame" where
  "setitem f c col = f\<lparr>cols := AList.update c col (cols f)\<rparr>"

text \<open>\<open>new_data[names] = columns\<close>, one column per name.\<close>

fun setitems :: "'c frame \<Rightarrow> string list \<Rightarrow> 'c list \<Rightarrow> exn + 'c frame" where
  "setitems f [] [] = Inr f"
| "setitems f (c # cs) (x # xs) = setitems (setitem f c x) cs xs"
| "setitems f _ _ = Inl ValueError"

text \<open>The same on the data itself; a grouping does not support item assignment.\<close>

fun data_setitems :: "'c data \<Rightarrow> string list \<Rightarrow> 'c list \<Rightarrow> exn + 'c data" where
  "data_setitems (DataFrame f) cs xs =
     (case setitems f cs xs of Inl e \<Rightarrow> Inl e | Inr f' \<Rightarrow> Inr (DataFrame f'))"
| "data_setitems (DataFrameGroupBy f keys) cs xs = Inl TypeError"

text \<open>
  Modelled from the spec: \<open>add_role\<close> of the table class, which is defined outside
  \<open>step.py\<close>. The spec has a derived column tagged with a declared role in the table's
  column-role metadata.
\<close>

definition add_role :: "'c frame \<Rightarrow> string \<Rightarrow> string \<Rightarrow> 'c frame" where
  "add_role f c r = f\<lparr>roles := roles f @ [(c, r)]\<rparr>"

text \<open>What is selected from the data for an sklearn transform: \<open>data[col]\<close> or \<open>data[columns]\<close>.\<close>

datatype selection = Col string | Cols "string list"

text \<open>
  The operations of pandas and sklearn that the steps call, as parameters. Each may raise.
  \<^item> \<open>fillna d cs value method limit\<close> is \<open>d[cs].fillna(value, method=method, axis=0, limit=limit)\<close>;
  \<^item> \<open>cummax d cs\<close> and \<open>cummin d cs\<close> are \<open>d[cs].cummax(skipna=True)\<close> and \<open>d[cs].cummin(skipna=True)\<close>;
  \<^item> \<open>scaler_fit with_mean with_std d c\<close> is
    \<open>StandardScaler(copy=True, with_mean=with_mean, with_std=with_std).fit(d[c].values[:, None])\<close>;
  \<^item> \<open>scaler_transform sclr d c\<close> is \<open>sclr.transform(d[c].values[:, None])\<close>;
  \<^item> \<open>sklearn_fit t d x\<close> is \<open>t.fit(d[x])\<close>, the fitted transform;
  \<^item> \<open>sklearn_apply t d x\<close> is \<open>t.transform(d[x])\<close>, as a list of columns;
  \<^item> \<open>class_name t\<close> is \<open>t.__class__.__name__\<close>.
\<close>

record ('c, 'v, 'sc, 'tr) library =
  fillna :: "'c data \<Rightarrow> string list \<Rightarrow> 'v option \<Rightarrow> string option \<Rightarrow> nat option \<Rightarrow> exn + 'c list"
  cummax :: "'c data \<Rightarrow> string list \<Rightarrow> exn + 'c list"
  cummin :: "'c data \<Rightarrow> string list \<Rightarrow> exn + 'c list"
  scaler_fit :: "bool \<Rightarrow> bool \<Rightarrow> 'c data \<Rightarrow> string \<Rightarrow> exn + 'sc"
  scaler_transform :: "'sc \<Rightarrow> 'c data \<Rightarrow> string \<Rightarrow> exn + 'c"
  sklearn_fit :: "'tr \<Rightarrow> 'c data \<Rightarrow> selection \<Rightarrow> exn + 'tr"
  sklearn_apply :: "'tr \<Rightarrow> 'c data \<Rightarrow> selection \<Rightarrow> exn + 'c list"
  class_name :: "'tr \<Rightarrow> string"

text \<open>
  The class of a step with the attributes of that class:
  \<^item> \<open>StepImputeFill value method limit\<close>;
  \<^item> \<open>StepScale with_mean with_std scalers\<close>;
  \<^item> \<open>StepHistorical fun suffix role\<close>;
  \<^item> \<open>StepSklearn sklearn_transform columnwise is_in_place _transformers\<close>.
  \<open>scalers\<close> and \<open>_transformers\<close> are dicts that exist only once \<open>fit\<close> has set them.
\<close>

datatype ('v, 'sc, 'tr) step_class =
    Step
  | StepImputeFill "'v option" "string option" "nat option"
  | StepScale bool bool "(string \<times> 'sc) list option"
  | StepHistorical string string string
  | StepSklearn 'tr bool bool "(string \<times> 'tr) list option"

text \<open>
  The attributes of every step. \<open>trained\<close> and \<open>group_flag\<close> are \<open>_trained\<close> and
  \<open>_group\<close>. The selector takes the data and returns column names. The attribute
  \<open>desc\<close> is read by \<open>__repr__\<close> only.
\<close>

record ('c, 'v, 'sc, 'tr) step =
  sel :: "'c data \<Rightarrow> exn + string list"
  columns :: "string list"
  trained :: bool
  group_flag :: bool
  cls :: "('v, 'sc, 'tr) step_class"

subsection \<open>Constructors\<close>






subsection \<open>fit\<close>

text \<open>
  The dict comprehension of \<open>StepScale.fit\<close>: a name that comes again keeps its place
  in the dict and takes the later scaler.
\<close>

fun fit_scalers ::
  "('c, 'v, 'sc, 'tr) library \<Rightarrow> bool \<Rightarrow> bool \<Rightarrow> 'c data \<Rightarrow> string list
     \<Rightarrow> (string \<times> 'sc) list \<Rightarrow> exn + (string \<times> 'sc) list" where
  "fit_scalers lib wm ws d [] acc = Inr acc"
| "fit_scalers lib wm ws d (c # cs) acc =
     (case scaler_fit lib wm ws d c of
        Inl e \<Rightarrow> Inl e
      | Inr sc \<Rightarrow> fit_scalers lib wm ws d cs (AList.update c sc acc))"

text \<open>
  The loop of \<open>StepSklearn.fit\<close> for \<open>columnwise\<close>: \<open>fit\<close> refits
  \<open>self.sklearn_transform\<close> itself and a copy of it is stored under the column. The
  result is the transform and the dict as the loop leaves them, and the exception if
  one was raised.
\<close>

fun fit_columnwise ::
  "('c, 'v, 'sc, 'tr) library \<Rightarrow> 'c data \<Rightarrow> string list \<Rightarrow> 'tr \<Rightarrow> (string \<times> 'tr) list
     \<Rightarrow> ('tr \<times> (string \<times> 'tr) list) \<times> exn option" where
  "fit_columnwise lib d [] t ts = ((t, ts), None)"
| "fit_columnwise lib d (col # cs) t ts =
     (case sklearn_fit lib t d (Col col) of
        Inl e \<Rightarrow> ((t, ts), Some e)
      | Inr t' \<Rightarrow> fit_columnwise lib d cs t' (AList.update col t' ts))"

text \<open>
  \<open>fit\<close> of each class, by the class of \<open>self\<close>. The result is the step after the call
  and the exception if the call raised one: an exception leaves the assignments made
  before it in place.
\<close>

definition fit ::
  "('c, 'v, 'sc, 'tr) library \<Rightarrow> ('c, 'v, 'sc, 'tr) step \<Rightarrow> 'c data
     \<Rightarrow> ('c, 'v, 'sc, 'tr) step \<times> exn option" where
  "fit lib self d =
     (case cls self of
        Step \<Rightarrow> (self, None)
      | StepImputeFill v m l \<Rightarrow>
          (case obj d of
             Inl e \<Rightarrow> (self, Some e)
           | Inr f \<Rightarrow>
               (case sel self (DataFrame f) of
                  Inl e \<Rightarrow> (self, Some e)
                | Inr cs \<Rightarrow> (self\<lparr>columns := cs, trained := True\<rparr>, None)))
      | StepScale wm ws scs \<Rightarrow>
          (case sel self d of
             Inl e \<Rightarrow> (self, Some e)
           | Inr cs \<Rightarrow>
               (case fit_scalers lib wm ws d cs [] of
                  Inl e \<Rightarrow> (self\<lparr>columns := cs\<rparr>, Some e)
                | Inr scs' \<Rightarrow>
                    (self\<lparr>columns := cs, cls := StepScale wm ws (Some scs'), trained := True\<rparr>,
                     None)))
      | StepHistorical fn sfx r \<Rightarrow>
          (case obj d of
             Inl e \<Rightarrow> (self, Some e)
           | Inr f \<Rightarrow>
               (case sel self (DataFrame f) of
                  Inl e \<Rightarrow> (self, Some e)
                | Inr cs \<Rightarrow> (self\<lparr>columns := cs, trained := True\<rparr>, None)))
      | StepSklearn t cw ip ts \<Rightarrow>
          (case sel self d of
             Inl e \<Rightarrow> (self, Some e)
           | Inr cs \<Rightarrow>
               if cw then
                 (case fit_columnwise lib d cs t [] of
                    ((t', ts'), Some e) \<Rightarrow>
                      (self\<lparr>columns := cs, cls := StepSklearn t' cw ip (Some ts')\<rparr>, Some e)
                  | ((t', ts'), None) \<Rightarrow>
                      (self\<lparr>columns := cs, cls := StepSklearn t' cw ip (Some ts'),
                            trained := True\<rparr>, None))
               else
                 (case sklearn_fit lib t d (Cols cs) of
                    Inl e \<Rightarrow> (self\<lparr>columns := cs\<rparr>, Some e)
                  | Inr t' \<Rightarrow>
                      (self\<lparr>columns := cs, cls := StepSklearn t' cw ip ts, trained := True\<rparr>,
                       None))))"

subsection \<open>transform\<close>

text \<open>\<open>str(n)\<close> for the column names that \<open>StepSklearn.transform\<close> builds.\<close>

fun str_nat :: "nat \<Rightarrow> string" where
  "str_nat n =
     (if n < 10 then [char_of (48 + n)]
      else str_nat (n div 10) @ [char_of (48 + n mod 10)])"

text \<open>
  The loop of \<open>StepScale.transform\<close> over \<open>self.scalers.items()\<close>. \<open>new_data\<close> and
  \<open>data\<close> are one object, so each column is read from the table as the loop has
  changed it so far.
\<close>

fun transform_scalers ::
  "('c, 'v, 'sc, 'tr) library \<Rightarrow> (string \<times> 'sc) list \<Rightarrow> 'c data \<Rightarrow> exn + 'c data" where
  "transform_scalers lib [] new_data = Inr new_data"
| "transform_scalers lib ((c, sclr) # scs) new_data =
     (case scaler_transform lib sclr new_data c of
        Inl e \<Rightarrow> Inl e
      | Inr col \<Rightarrow>
          (case data_setitems new_data [c] [col] of
             Inl e \<Rightarrow> Inl e
           | Inr new_data' \<Rightarrow> transform_scalers lib scs new_data'))"

text \<open>
  The loop of \<open>StepSklearn.transform\<close> for \<open>columnwise\<close>, over the columns that are
  left. \<open>t\<close> is \<open>self.sklearn_transform\<close>, \<open>ts\<close> is \<open>self._transformers\<close>.
\<close>

fun transform_columnwise ::
  "('c, 'v, 'sc, 'tr) library \<Rightarrow> 'tr \<Rightarrow> bool \<Rightarrow> (string \<times> 'tr) list option \<Rightarrow> string list
     \<Rightarrow> 'c data \<Rightarrow> exn + 'c data" where
  "transform_columnwise lib t ip ts [] new_data = Inr new_data"
| "transform_columnwise lib t ip ts (col # cs) new_data =
     (case ts of
        None \<Rightarrow> Inl AttributeError
      | Some dict \<Rightarrow>
          (case map_of dict col of
             None \<Rightarrow> Inl KeyError
           | Some tc \<Rightarrow>
               (case sklearn_apply lib tc new_data (Col col) of
                  Inl e \<Rightarrow> Inl e
                | Inr new_cols \<Rightarrow>
                    (case data_setitems new_data
                            (if ip then [col]
                             else map (\<lambda>i. class_name lib t @ ''_'' @ col @ ''_'' @ str_nat (i + 1))
                                    [0..<length new_cols])
                            new_cols of
                       Inl e \<Rightarrow> Inl e
                     | Inr new_data' \<Rightarrow> transform_columnwise lib t ip ts cs new_data'))))"

text \<open>
  \<open>transform\<close> of each class. The result is an exception, or the data as the call
  leaves it together with the returned value (\<open>None\<close> for the base class, whose body
  is \<open>pass\<close>). What a failing call has already written to the table is not modelled.
  \<open>StepHistorical\<close> binds \<open>res\<close> only for \<open>max\<close> and \<open>min\<close>.
\<close>

definition transform ::
  "('c, 'v, 'sc, 'tr) library \<Rightarrow> ('c, 'v, 'sc, 'tr) step \<Rightarrow> 'c data
     \<Rightarrow> exn + ('c data \<times> 'c data option)" where
  "transform lib self d =
     (case cls self of
        Step \<Rightarrow> Inr (d, None)
      | StepImputeFill v m l \<Rightarrow>
          (case obj d of
             Inl e \<Rightarrow> Inl e
           | Inr new_data \<Rightarrow>
               (case fillna lib d (columns self) v m l of
                  Inl e \<Rightarrow> Inl e
                | Inr filled \<Rightarrow>
                    (case setitems new_data (columns self) filled of
                       Inl e \<Rightarrow> Inl e
                     | Inr nd \<Rightarrow> Inr (with_obj d nd, Some (DataFrame nd)))))
      | StepScale wm ws scs \<Rightarrow>
          (case scs of
             None \<Rightarrow> Inl AttributeError
           | Some dict \<Rightarrow>
               (case transform_scalers lib dict d of
                  Inl e \<Rightarrow> Inl e
                | Inr nd \<Rightarrow> Inr (nd, Some nd)))
      | StepHistorical fn sfx r \<Rightarrow>
          (case obj d of
             Inl e \<Rightarrow> Inl e
           | Inr new_data \<Rightarrow>
               (let new_columns = map (\<lambda>c. c @ ''_'' @ sfx) (columns self) in
                case (if fn = ''max'' then cummax lib d (columns self)
                      else if fn = ''min'' then cummin lib d (columns self)
                      else Inl UnboundLocalError) of
                  Inl e \<Rightarrow> Inl e
                | Inr res \<Rightarrow>
                    (case setitems new_data new_columns res of
                       Inl e \<Rightarrow> Inl e
                     | Inr nd \<Rightarrow>
                         (let nd' = fold (\<lambda>nc f. add_role f nc r) new_columns nd
                          in Inr (with_obj d nd', Some (DataFrame nd'))))))
      | StepSklearn t cw ip ts \<Rightarrow>
          if cw then
            (case transform_columnwise lib t ip ts (columns self) d of
               Inl e \<Rightarrow> Inl e
             | Inr nd \<Rightarrow> Inr (nd, Some nd))
          else
            (case sklearn_apply lib t d (Cols (columns self)) of
               Inl e \<Rightarrow> Inl e
             | Inr new_cols \<Rightarrow>
                 (case data_setitems d
                         (if ip then columns self
                          else map (\<lambda>i. class_name lib t @ ''_'' @ str_nat (i + 1))
                                 [0..<length new_cols])
                         new_cols of
                    Inl e \<Rightarrow> Inl e
                  | Inr nd \<Rightarrow> Inr (nd, Some nd))))"

subsection \<open>fit\_transform and sequences of calls\<close>

text \<open>\<open>self.fit(data); return self.transform(data)\<close>: the step after the call and its outcome.\<close>

definition fit_transform ::
  "('c, 'v, 'sc, 'tr) library \<Rightarrow> ('c, 'v, 'sc, 'tr) step \<Rightarrow> 'c data
     \<Rightarrow> ('c, 'v, 'sc, 'tr) step \<times> (exn + ('c data \<times> 'c data option))" where
  "fit_transform lib self d =
     (case fit lib self d of
        (self', Some e) \<Rightarrow> (self', Inl e)
      | (self', None) \<Rightarrow> (self', transform lib self' d))"

text \<open>
  A caller holds a step and a table and calls methods of the step on the table, one
  after the other, until one raises. A call yields the step and the table after it and
  the value it returned or the exception it raised.
\<close>

datatype call = Fit | Transform | FitTransform

fun call_method ::
  "('c, 'v, 'sc, 'tr) library \<Rightarrow> call \<Rightarrow> ('c, 'v, 'sc, 'tr) step \<times> 'c data
     \<Rightarrow> (('c, 'v, 'sc, 'tr) step \<times> 'c data) \<times> (exn + 'c data option)" where
  "call_method lib Fit (self, d) =
     (case fit lib self d of
        (self', Some e) \<Rightarrow> ((self', d), Inl e)
      | (self', None) \<Rightarrow> ((self', d), Inr None))"
| "call_method lib Transform (self, d) =
     (case transform lib self d of
        Inl e \<Rightarrow> ((self, d), Inl e)
      | Inr (d', r) \<Rightarrow> ((self, d'), Inr r))"
| "call_method lib FitTransform (self, d) =
     (case fit_transform lib self d of
        (self', Inl e) \<Rightarrow> ((self', d), Inl e)
      | (self', Inr (d', r)) \<Rightarrow> ((self', d'), Inr r))"

fun run_calls ::
  "('c, 'v, 'sc, 'tr) library \<Rightarrow> call list \<Rightarrow> ('c, 'v, 'sc, 'tr) step \<times> 'c data
     \<Rightarrow> (('c, 'v, 'sc, 'tr) step \<times> 'c data) \<times> (exn + 'c data option)" where
  "run_calls lib [] w = (w, Inr None)"
| "run_calls lib [c] w = call_method lib c w"
| "run_calls lib (c # cs) w =
     (case call_method lib c w of
        (w', Inl e) \<Rightarrow> (w', Inl e)
      | (w', Inr r) \<Rightarrow> run_calls lib cs w')"

section \<open>Inputs for worked examples of the training loop\<close>

text \<open>
  Validation outcomes for worked examples: epoch \<open>e\<close> has the loss \<open>xs ! e\<close> and its
  metrics are tagged with \<open>e\<close>; an epoch after the listed ones would have loss \<open>0\<close>.
\<close>

definition val_schedule :: "real list \<Rightarrow> nat \<Rightarrow> real \<times> nat" where
  "val_schedule xs e = (if e < length xs then xs ! e else 0, e)"

section \<open>Inputs for worked examples of step\_fn\<close>

text \<open>
  An encoder with two output units that maps each feature \<open>x\<close> to the row
  \<open>[1 - x, x]\<close>, and a loss that counts the positions it is given.
\<close>

definition example_encoder :: "real list \<Rightarrow> encoder_output" where
  "example_encoder d = Out \<lparr>rows = map (\<lambda>x. [1 - x, x]) d, last_dim = 2\<rparr>"

definition example_loss :: "unit loss_call \<Rightarrow> real" where
  "example_loss c =
     (case c of
        Classification out labels w \<Rightarrow> real (length out)
      | Regression preds labels \<Rightarrow> real (length preds))"

section \<open>Inputs for worked examples of the steps\<close>








section \<open>The invariant of the training loop\<close>


section \<open>Properties of the training loop\<close>

subsection \<open>One epoch more\<close>









lemmas run_simps =
  train_def init_state_def early_stopping_def stop_training_def val_schedule_def Let_def

subsection \<open>The checkpoint that is loaded back\<close>




subsection \<open>The early-stopping rule\<close>

text \<open>
  C2, as the code has it. After each epoch: if the validation loss is at most the best
  loss so far minus \<open>min_delta\<close> (an improvement by \<open>min_delta\<close> or more; always so
  while the best loss is still infinite), the counter is reset to \<open>0\<close>, the epoch's
  metrics become the best metrics, its loss the best loss, and with \<open>save_weights\<close> the
  checkpoint of the epoch is written. Otherwise the counter goes up by one and best
  loss, best metrics and checkpoint stay. When the counter has then reached
  \<open>patience\<close> the loop ends without a further epoch, else it goes on with the next
  one. For the losses \<open>1.0, 0.9, 0.91, 0.92\<close> with \<open>patience = 2\<close> and
  \<open>min_delta = 0.01\<close>, training ends after the fourth epoch and keeps the second
  (index \<open>1\<close>, loss \<open>0.9\<close>) as best metrics and as checkpoint.
\<close>

theorem early_stopping_rule:
  fixes a :: train_args and s :: "'m train_state" and val :: "nat \<Rightarrow> real \<times> 'm"
  shows
  "((case best_loss s of Infinity \<Rightarrow> True | Float b \<Rightarrow> fst r \<le> b - min_delta a) \<longrightarrow>
      epoch_no_improvement (early_stopping a epoch r s) = 0
      \<and> best_metrics (early_stopping a epoch r s) = Some (snd r)
      \<and> best_loss (early_stopping a epoch r s) = Float (fst r)
      \<and> model_torch (early_stopping a epoch r s) =
          (if save_weights a then Some epoch else model_torch s))
   \<and> (\<not> (case best_loss s of Infinity \<Rightarrow> True | Float b \<Rightarrow> fst r \<le> b - min_delta a) \<longrightarrow>
      epoch_no_improvement (early_stopping a epoch r s) = epoch_no_improvement s + 1
      \<and> best_metrics (early_stopping a epoch r s) = best_metrics s
      \<and> best_loss (early_stopping a epoch r s) = best_loss s
      \<and> model_torch (early_stopping a epoch r s) = model_torch s)
   \<and> (patience a \<le> int (epoch_no_improvement (early_stopping a epoch (val epoch) s)) \<longrightarrow>
      train_loop a val (Suc n) epoch s = early_stopping a epoch (val epoch) s
      \<and> epochs_done (train_loop a val (Suc n) epoch s) = Suc (epochs_done s))
   \<and> (\<not> patience a \<le> int (epoch_no_improvement (early_stopping a epoch (val epoch) s)) \<longrightarrow>
      train_loop a val (Suc n) epoch s =
        train_loop a val n (Suc epoch) (early_stopping a epoch (val epoch) s))
   \<and> train \<lparr>epochs = 1000, patience = 2, min_delta = 1 / 100, save_weights = True\<rparr>
        (val_schedule [1, 9 / 10, 91 / 100, 92 / 100]) None =
      Inr \<lparr>best_metrics_json = (1, Float (9 / 10)), appended = 3, loaded = 1,
           final = \<lparr>best_loss = Float (9 / 10), epoch_no_improvement = 2,
                    best_metrics = Some 1, val_metric_results = Some 3,
                    model_torch = Some 1, epochs_done = 4\<rparr>\<rparr>"
proof -
  have 1: "(case best_loss s of Infinity \<Rightarrow> True | Float b \<Rightarrow> fst r \<le> b - min_delta a)
        = le_pyfloat (fst r) (pyfloat_sub (best_loss s) (min_delta a))"
    by (cases "best_loss s") simp_all
  have 2: "train \<lparr>epochs = 1000, patience = 2, min_delta = 1 / 100, save_weights = True\<rparr>
        (val_schedule [1, 9 / 10, 91 / 100, 92 / 100]) None =
      Inr \<lparr>best_metrics_json = (1, Float (9 / 10)), appended = 3, loaded = 1,
           final = \<lparr>best_loss = Float (9 / 10), epoch_no_improvement = 2,
                    best_metrics = Some 1, val_metric_results = Some 3,
                    model_torch = Some 1, epochs_done = 4\<rparr>\<rparr>"
    by (simp add: run_simps eval_nat_numeral)
  show ?thesis
    unfolding 1 using 2
    by (simp add: early_stopping_def stop_training_def Let_def)
qed

theorem early_stopping_rule_witness:
  "epoch_no_improvement
     (early_stopping \<lparr>epochs = 4, patience = 2, min_delta = 1 / 100, save_weights = True\<rparr> 1
        (val_schedule [1, 9 / 10, 91 / 100, 92 / 100] 1)
        (train_loop \<lparr>epochs = 4, patience = 2, min_delta = 1 / 100, save_weights = True\<rparr>
           (val_schedule [1, 9 / 10, 91 / 100, 92 / 100]) 1 0 (init_state None))) = 0
   \<and> epoch_no_improvement
     (early_stopping \<lparr>epochs = 4, patience = 2, min_delta = 1 / 100, save_weights = True\<rparr> 2
        (val_schedule [1, 9 / 10, 91 / 100, 92 / 100] 2)
        (train_loop \<lparr>epochs = 4, patience = 2, min_delta = 1 / 100, save_weights = True\<rparr>
           (val_schedule [1, 9 / 10, 91 / 100, 92 / 100]) 2 0 (init_state None))) = 1
   \<and> epochs_done
     (train_loop \<lparr>epochs = 4, patience = 2, min_delta = 1 / 100, save_weights = True\<rparr>
        (val_schedule [1, 9 / 10, 91 / 100, 92 / 100]) (Suc 5) 3
        (train_loop \<lparr>epochs = 4, patience = 2, min_delta = 1 / 100, save_weights = True\<rparr>
           (val_schedule [1, 9 / 10, 91 / 100, 92 / 100]) 3 0 (init_state None))) = 4"
proof -
  let ?a = "\<lparr>epochs = 4, patience = 2, min_delta = 1 / 100, save_weights = True\<rparr>"
  let ?v = "val_schedule [1, 9 / 10, 91 / 100, 92 / 100]"
  let ?s1 = "train_loop ?a ?v 1 0 (init_state None)"
  let ?s2 = "train_loop ?a ?v 2 0 (init_state None)"
  let ?s3 = "train_loop ?a ?v 3 0 (init_state None)"
  have s1: "?s1 = \<lparr>best_loss = Float 1, epoch_no_improvement = 0, best_metrics = Some 0,
                   val_metric_results = Some 0, model_torch = Some 0, epochs_done = 1\<rparr>"
    by (simp add: run_simps eval_nat_numeral)
  have s2: "?s2 = \<lparr>best_loss = Float (9 / 10), epoch_no_improvement = 0, best_metrics = Some 1,
                   val_metric_results = Some 1, model_torch = Some 1, epochs_done = 2\<rparr>"
    by (simp add: run_simps eval_nat_numeral)
  have s3: "?s3 = \<lparr>best_loss = Float (9 / 10), epoch_no_improvement = 1, best_metrics = Some 1,
                   val_metric_results = Some 2, model_torch = Some 1, epochs_done = 3\<rparr>"
    by (simp add: run_simps eval_nat_numeral)
  have h1: "(case best_loss ?s1 of Infinity \<Rightarrow> True | Float b \<Rightarrow> fst (?v 1) \<le> b - min_delta ?a)"
    unfolding s1 by (simp add: val_schedule_def)
  have h2: "\<not> (case best_loss ?s2 of Infinity \<Rightarrow> True | Float b \<Rightarrow> fst (?v 2) \<le> b - min_delta ?a)"
    unfolding s2 by (simp add: val_schedule_def)
  have h3: "patience ?a \<le> int (epoch_no_improvement (early_stopping ?a 3 (?v 3) ?s3))"
    unfolding s3 by (simp add: early_stopping_def val_schedule_def Let_def)
  have c1: "epoch_no_improvement (early_stopping ?a 1 (?v 1) ?s1) = 0"
    using early_stopping_rule[where s = ?s1 and r = "?v 1" and a = ?a and epoch = 1] h1 by blast
  have c2: "epoch_no_improvement (early_stopping ?a 2 (?v 2) ?s2) = epoch_no_improvement ?s2 + 1"
    using early_stopping_rule[where s = ?s2 and r = "?v 2" and a = ?a and epoch = 2] h2 by blast
  have c3: "epochs_done (train_loop ?a ?v (Suc 5) 3 ?s3) = Suc (epochs_done ?s3)"
    using early_stopping_rule[where s = ?s3 and a = ?a and epoch = 3 and val = ?v and n = 5] h3 by blast
  have e2: "epoch_no_improvement ?s2 = 0" unfolding s2 by simp
  have e3: "epochs_done ?s3 = 3" unfolding s3 by simp
  show ?thesis using c1 c2 c3 unfolding e2 e3 by simp
qed

text \<open>
  C2, as the spec states it, fails at the boundary: with best loss \<open>1\<close>,
  \<open>min_delta = 0.5\<close> and a validation loss of \<open>0.5\<close>, the loss has improved by
  \<open>min_delta\<close> and not by more, yet the counter is reset (it does not go up) and the
  checkpoint of that epoch is written.
\<close>

theorem improvement_of_exactly_min_delta_resets:
  "best_loss (train_loop \<lparr>epochs = 2, patience = 1, min_delta = 1 / 2, save_weights = True\<rparr>
                (val_schedule [1, 1 / 2]) 1 0 (init_state None)) = Float 1
   \<and> fst (val_schedule [1, 1 / 2] 1) = 1 / 2
   \<and> \<not> (min_delta \<lparr>epochs = 2, patience = 1, min_delta = 1 / 2, save_weights = True\<rparr>
          < 1 - fst (val_schedule [1, 1 / 2] 1))
   \<and> epoch_no_improvement
        (train_loop \<lparr>epochs = 2, patience = 1, min_delta = 1 / 2, save_weights = True\<rparr>
           (val_schedule [1, 1 / 2]) 2 0 (init_state None)) = 0
   \<and> model_torch
        (train_loop \<lparr>epochs = 2, patience = 1, min_delta = 1 / 2, save_weights = True\<rparr>
           (val_schedule [1, 1 / 2]) 2 0 (init_state None)) = Some 1"
  by (simp add: run_simps eval_nat_numeral)

subsection \<open>Patience zero\<close>

text \<open>
  C10. With \<open>patience = 0\<close> and at least one epoch asked for, exactly one epoch runs:
  the loop ends after the first epoch, although that epoch improved on the infinite
  initial best loss and left the counter at \<open>0\<close>.
\<close>

theorem patience_zero_runs_one_epoch:
  assumes "patience a = 0" and "1 \<le> epochs a"
  shows "epochs_done (train_loop a val (nat (epochs a)) 0 (init_state file)) = 1
    \<and> train_loop a val (nat (epochs a)) 0 (init_state file)
        = early_stopping a 0 (val 0) (init_state file)
    \<and> epoch_no_improvement (train_loop a val (nat (epochs a)) 0 (init_state file)) = 0
    \<and> best_loss (train_loop a val (nat (epochs a)) 0 (init_state file)) = Float (fst (val 0))
    \<and> stop_training a (train_loop a val (nat (epochs a)) 0 (init_state file))"
proof -
  from assms(2) obtain n where n: "nat (epochs a) = Suc n"
    by (cases "nat (epochs a)") auto
  have stop: "stop_training a s" for s :: "'a train_state"
    by (simp add: stop_training_def assms(1))
  have "train_loop a val (Suc n) 0 (init_state file) = early_stopping a 0 (val 0) (init_state file)"
    by (simp add: Let_def stop)
  then show ?thesis
    unfolding n by (simp add: stop) (simp add: early_stopping_def init_state_def Let_def)
qed

theorem patience_zero_runs_one_epoch_witness:
  "patience \<lparr>epochs = 1000, patience = 0, min_delta = 1 / 10000, save_weights = True\<rparr> = 0
   \<and> 1 \<le> epochs \<lparr>epochs = 1000, patience = 0, min_delta = 1 / 10000, save_weights = True\<rparr>
   \<and> epochs_done
       (train_loop \<lparr>epochs = 1000, patience = 0, min_delta = 1 / 10000, save_weights = True\<rparr>
          (val_schedule [1, 1 / 2]) 1000 0 (init_state None)) = 1"
proof -
  let ?a = "\<lparr>epochs = 1000, patience = 0, min_delta = 1 / 10000, save_weights = True\<rparr>"
  have p: "patience ?a = 0" and e: "1 \<le> epochs ?a" by simp_all
  have n: "nat (epochs ?a) = 1000" by simp
  from patience_zero_runs_one_epoch[OF p e, of "val_schedule [1, 1 / 2]" None]
  have "epochs_done (train_loop ?a (val_schedule [1, 1 / 2]) (nat (epochs ?a)) 0 (init_state None)) = 1"
    by blast
  then have "epochs_done (train_loop ?a (val_schedule [1, 1 / 2]) 1000 0 (init_state None)) = 1"
    unfolding n .
  with p e show ?thesis by blast
qed

section \<open>Properties of the loss weight\<close>

text \<open>
  C3. \<open>train\<close> turns a list into a tensor and resolves \<open>"balanced"\<close> to the balance
  vector of the training set, element for element. \<open>test\<close> turns a list into a tensor
  too, but has no case for \<open>"balanced"\<close>: the string itself goes on to \<open>evaluate\<close> and
  from there to the loss, so the weight used is not the balance vector of the dataset.
\<close>

theorem test_leaves_balanced_unresolved:
  "train_weight ds (PyStr ''balanced'') = FloatTensor (get_balance ds)
   \<and> train_weight ds (PyList xs) = FloatTensor xs
   \<and> test_weight ds (PyList xs) = FloatTensor xs
   \<and> test_weight ds (PyStr ''balanced'') = PyStr ''balanced''
   \<and> test_weight ds (PyStr ''balanced'') \<noteq> FloatTensor (get_balance ds)"
  by (simp add: train_weight_def test_weight_def)

section \<open>Properties of DLWrapper.set\_metrics\<close>

text \<open>
  C4. \<open>set_metrics\<close> chooses by the output width alone. Width \<open>2\<close> gives the metrics
  \<open>PR\<close>, \<open>AUC\<close>, \<open>PR_Curve\<close>, \<open>ROC_Curve\<close> and \<open>Calibration_Curve\<close> and the transform
  that takes the softmax and selects the last (positive) class. Width \<open>1\<close> gives the
  single metric \<open>MAE\<close>, inverse-scaled through the scaler when one is set and plain
  otherwise, and the identity transform. Every other width gives \<open>Accuracy\<close> and
  \<open>BalancedAccuracy\<close> and the softmax transform. Two wrappers of equal width get the
  same transform and the same metric names; width and scaler are left as they are.
\<close>

theorem dl_set_metrics_by_width:
  "(out_features self = 2 \<longrightarrow>
      dl_output_transform (dl_set_metrics self) = Some softmax_binary_output_transform
      \<and> dl_metrics (dl_set_metrics self) =
          Some [(''PR'', AveragePrecision), (''AUC'', ROC_AUC),
                (''PR_Curve'', PrecisionRecallCurve), (''ROC_Curve'', RocCurve),
                (''Calibration_Curve'', CalibrationCurve)])
   \<and> (out_features self = 1 \<longrightarrow>
      dl_output_transform (dl_set_metrics self) = Some dl_identity
      \<and> dl_metrics (dl_set_metrics self) =
          Some [(''MAE'', case dl_scaler self of Some sc \<Rightarrow> MAE sc | None \<Rightarrow> MeanAbsoluteError)])
   \<and> (out_features self \<noteq> 2 \<and> out_features self \<noteq> 1 \<longrightarrow>
      dl_output_transform (dl_set_metrics self) = Some softmax_multi_output_transform
      \<and> dl_metrics (dl_set_metrics self) =
          Some [(''Accuracy'', Accuracy), (''BalancedAccuracy'', BalancedAccuracy)])
   \<and> (out_features self = out_features other \<longrightarrow>
      dl_output_transform (dl_set_metrics self) = dl_output_transform (dl_set_metrics other)
      \<and> map_option (map fst) (dl_metrics (dl_set_metrics self))
          = map_option (map fst) (dl_metrics (dl_set_metrics other)))
   \<and> out_features (dl_set_metrics self) = out_features self
   \<and> dl_scaler (dl_set_metrics self) = dl_scaler self"
  by (simp add: dl_set_metrics_def split: option.split)

theorem dl_set_metrics_by_width_witness:
  "dl_metrics (dl_set_metrics \<lparr>out_features = 2, dl_scaler = Some (7::nat),
        dl_output_transform = None, dl_metrics = None\<rparr>) =
     Some [(''PR'', AveragePrecision), (''AUC'', ROC_AUC),
           (''PR_Curve'', PrecisionRecallCurve), (''ROC_Curve'', RocCurve),
           (''Calibration_Curve'', CalibrationCurve)]
   \<and> dl_metrics (dl_set_metrics \<lparr>out_features = 1, dl_scaler = Some (7::nat),
        dl_output_transform = None, dl_metrics = None\<rparr>) = Some [(''MAE'', MAE 7)]
   \<and> dl_metrics (dl_set_metrics \<lparr>out_features = 3, dl_scaler = Some (7::nat),
        dl_output_transform = None, dl_metrics = None\<rparr>) =
     Some [(''Accuracy'', Accuracy), (''BalancedAccuracy'', BalancedAccuracy)]
   \<and> dl_output_transform (dl_set_metrics \<lparr>out_features = 3, dl_scaler = Some (7::nat),
        dl_output_transform = None, dl_metrics = None\<rparr>) =
      dl_output_transform (dl_set_metrics \<lparr>out_features = 3, dl_scaler = (None::nat option),
        dl_output_transform = None, dl_metrics = None\<rparr>)"
proof -
  let ?w2 = "\<lparr>out_features = 2, dl_scaler = Some (7::nat),
        dl_output_transform = None, dl_metrics = None\<rparr>"
  let ?w1 = "\<lparr>out_features = 1, dl_scaler = Some (7::nat),
        dl_output_transform = None, dl_metrics = None\<rparr>"
  let ?w3 = "\<lparr>out_features = 3, dl_scaler = Some (7::nat),
        dl_output_transform = None, dl_metrics = None\<rparr>"
  let ?w3' = "\<lparr>out_features = 3, dl_scaler = (None::nat option),
        dl_output_transform = None, dl_metrics = None\<rparr>"
  have h2: "out_features ?w2 = 2" and h1: "out_features ?w1 = 1"
    and h3: "out_features ?w3 \<noteq> 2 \<and> out_features ?w3 \<noteq> 1"
    and h4: "out_features ?w3 = out_features ?w3'"
    by simp_all
  have c2: "dl_metrics (dl_set_metrics ?w2) =
     Some [(''PR'', AveragePrecision), (''AUC'', ROC_AUC),
           (''PR_Curve'', PrecisionRecallCurve), (''ROC_Curve'', RocCurve),
           (''Calibration_Curve'', CalibrationCurve)]"
    using dl_set_metrics_by_width[of ?w2 ?w2] h2 by blast
  have "dl_metrics (dl_set_metrics ?w1) =
      Some [(''MAE'', case dl_scaler ?w1 of Some sc \<Rightarrow> MAE sc | None \<Rightarrow> MeanAbsoluteError)]"
    using dl_set_metrics_by_width[of ?w1 ?w1] h1 by blast
  then have c1: "dl_metrics (dl_set_metrics ?w1) = Some [(''MAE'', MAE 7)]"
    by simp
  have c3: "dl_metrics (dl_set_metrics ?w3) =
     Some [(''Accuracy'', Accuracy), (''BalancedAccuracy'', BalancedAccuracy)]"
    using dl_set_metrics_by_width[of ?w3 ?w3] h3 by blast
  have c4: "dl_output_transform (dl_set_metrics ?w3) = dl_output_transform (dl_set_metrics ?w3')"
    using dl_set_metrics_by_width[of ?w3 ?w3'] h4 by blast
  from c2 c1 c3 c4 show ?thesis by blast
qed

section \<open>Properties of DLWrapper.step\_fn\<close>

lemma masked_select_all: "length m = length xs \<Longrightarrow> list_all id m \<Longrightarrow> masked_select xs m = xs"
  unfolding masked_select_def
proof (induction xs arbitrary: m)
  case Nil
  then show ?case by simp
next
  case (Cons x xs)
  then obtain b bs where "m = b # bs" by (cases m) auto
  with Cons show ?case by simp
qed

lemma masked_select_ones: "masked_select xs (replicate (length xs) True) = xs"
  by (rule masked_select_all) (simp_all add: list_all_iff)

lemma batch_losses_raises:
  assumes "step_fn encoder loss elem w = Inl e"
    and "batch_losses encoder loss before w = Inr ls"
  shows "batch_losses encoder loss (before @ elem # rest) w = Inl e"
  using assms(2)
proof (induction before arbitrary: ls)
  case Nil
  then show ?case by (simp add: assms(1))
next
  case (Cons b bs)
  then show ?case
    by (auto split: sum.splits prod.splits)
qed

lemma evaluate_loss_raises:
  assumes "step_fn encoder loss elem w = Inl e"
    and "batch_losses encoder loss before w = Inr ls"
  shows "evaluate_loss encoder loss (before @ elem # rest) w = Inl e"
  by (simp add: evaluate_loss_def batch_losses_raises[OF assms])

text \<open>
  C6. A 2-tuple is processed as the 3-tuple with the all-true mask over its labels:
  every position is kept, so the flattened labels are the labels. A 3-tuple is
  processed with its own mask: flattened labels and outputs are the entries at the
  positions where the mask is true. An element of any other arity makes \<open>step_fn\<close>
  raise at once, whatever the encoder and the loss are, and a pass of \<open>evaluate\<close>
  that comes to such an element ends with that exception: the elements after it are
  not processed and no loss is returned.
\<close>

theorem step_fn_mask_by_arity:
  "step_fn encoder loss (Tuple2 d labels) w
     = step_fn encoder loss (Tuple3 d labels (replicate (length labels) True)) w
   \<and> masked_select labels (replicate (length labels) True) = labels
   \<and> (step_fn encoder loss (Tuple2 d labels) w = Inr (l, out_flat, label_flat) \<longrightarrow>
        label_flat = labels)
   \<and> (step_fn encoder loss (Tuple3 d labels m) w = Inr (l, out_flat, label_flat) \<longrightarrow>
        label_flat = masked_select labels m
        \<and> out_flat = masked_select
             (rows (case encoder d of Out t \<Rightarrow> t | OutAux t a \<Rightarrow> t)) m)
   \<and> (len element \<noteq> 2 \<and> len element \<noteq> 3 \<longrightarrow>
        step_fn encoder loss element w =
          Inl (Exception ''Loader should return either (data, label) or (data, label, mask)''))
   \<and> (len element \<noteq> 2 \<and> len element \<noteq> 3
        \<and> batch_losses encoder loss before w = Inr ls \<longrightarrow>
        evaluate_loss encoder loss (before @ element # rest) w =
          Inl (Exception ''Loader should return either (data, label) or (data, label, mask)''))"
proof -
  have 1: "step_fn encoder loss (Tuple2 d labels) w
     = step_fn encoder loss (Tuple3 d labels (replicate (length labels) True)) w"
    by (simp add: step_fn_def)
  have 3: "step_fn encoder loss (Tuple3 d labels m) w = Inr (l, out_flat, label_flat) \<longrightarrow>
        label_flat = masked_select labels m
        \<and> out_flat = masked_select
             (rows (case encoder d of Out t \<Rightarrow> t | OutAux t a \<Rightarrow> t)) m" for m
    by (auto simp: step_fn_def Let_def split: encoder_output.splits if_splits)
  have 2: "step_fn encoder loss (Tuple2 d labels) w = Inr (l, out_flat, label_flat) \<longrightarrow>
        label_flat = labels"
    unfolding 1 using 3[of "replicate (length labels) True"] by (simp add: masked_select_ones)
  have 4: "len element \<noteq> 2 \<and> len element \<noteq> 3 \<longrightarrow>
        step_fn encoder loss element w =
          Inl (Exception ''Loader should return either (data, label) or (data, label, mask)'')"
    by (cases element) (simp_all add: step_fn_def)
  have 5: "len element \<noteq> 2 \<and> len element \<noteq> 3
        \<and> batch_losses encoder loss before w = Inr ls \<longrightarrow>
        evaluate_loss encoder loss (before @ element # rest) w =
          Inl (Exception ''Loader should return either (data, label) or (data, label, mask)'')"
  proof (intro impI, elim conjE)
    assume a: "len element \<noteq> 2" "len element \<noteq> 3"
      and b: "batch_losses encoder loss before w = Inr ls"
    from 4 a have "step_fn encoder loss element w =
          Inl (Exception ''Loader should return either (data, label) or (data, label, mask)'')"
      by simp
    then show "evaluate_loss encoder loss (before @ element # rest) w =
          Inl (Exception ''Loader should return either (data, label) or (data, label, mask)'')"
      using b by (rule evaluate_loss_raises)
  qed
  show ?thesis
    by (intro conjI) (rule 1 2 3 4 5 masked_select_ones)+
qed

theorem step_fn_mask_by_arity_witness:
  "step_fn example_encoder example_loss (Tuple2 [1 / 4, 3 / 4] [0, 1]) ()
     = Inr (2, [[3 / 4, 1 / 4], [1 / 4, 3 / 4]], [0, 1])
   \<and> step_fn example_encoder example_loss
        (Tuple3 [1 / 4, 3 / 4, 1 / 2] [0, 1, 0] [True, False, True]) ()
     = Inr (2, [[3 / 4, 1 / 4], [1 / 2, 1 / 2]], [0, 0])
   \<and> [0, 0] = masked_select [0, 1, 0 :: real] [True, False, True]
   \<and> len (Tuple1 [1 / 4 :: real]) \<noteq> 2 \<and> len (Tuple1 [1 / 4 :: real]) \<noteq> 3
   \<and> step_fn example_encoder example_loss (Tuple1 [1 / 4]) ()
     = Inl (Exception ''Loader should return either (data, label) or (data, label, mask)'')
   \<and> batch_losses example_encoder example_loss [Tuple2 [1 / 4, 3 / 4] [0, 1]] () = Inr [2]
   \<and> evaluate_loss example_encoder example_loss
        ([Tuple2 [1 / 4, 3 / 4] [0, 1]] @ Tuple1 [1 / 4] # [Tuple2 [1 / 4] [0]]) ()
     = Inl (Exception ''Loader should return either (data, label) or (data, label, mask)'')"
proof -
  have a: "step_fn example_encoder example_loss (Tuple2 [1 / 4, 3 / 4] [0, 1]) ()
     = Inr (2, [[3 / 4, 1 / 4], [1 / 4, 3 / 4]], [0, 1])"
    by (simp add: step_fn_def example_encoder_def example_loss_def masked_select_def)
  have b: "step_fn example_encoder example_loss
        (Tuple3 [1 / 4, 3 / 4, 1 / 2] [0, 1, 0] [True, False, True]) ()
     = Inr (2, [[3 / 4, 1 / 4], [1 / 2, 1 / 2]], [0, 0])"
    by (simp add: step_fn_def example_encoder_def example_loss_def masked_select_def)
  have c: "len (Tuple1 [1 / 4 :: real]) \<noteq> 2 \<and> len (Tuple1 [1 / 4 :: real]) \<noteq> 3"
    by simp
  have b': "[0, 0] = masked_select [0, 1, 0 :: real] [True, False, True]"
    using step_fn_mask_by_arity[where encoder = example_encoder and loss = example_loss
        and d = "[1 / 4, 3 / 4, 1 / 2]" and labels = "[0, 1, 0]" and m = "[True, False, True]"
        and w = "()" and l = 2 and out_flat = "[[3 / 4, 1 / 4], [1 / 2, 1 / 2]]"
        and label_flat = "[0, 0]"] b
    by blast
  have c': "step_fn example_encoder example_loss (Tuple1 [1 / 4]) ()
     = Inl (Exception ''Loader should return either (data, label) or (data, label, mask)'')"
    using step_fn_mask_by_arity[where encoder = example_encoder and loss = example_loss
        and element = "Tuple1 [1 / 4]" and w = "()"] c
    by blast
  have d: "batch_losses example_encoder example_loss [Tuple2 [1 / 4, 3 / 4] [0, 1]] () = Inr [2]"
    by (simp add: step_fn_def example_encoder_def example_loss_def masked_select_def)
  have d': "evaluate_loss example_encoder example_loss
        ([Tuple2 [1 / 4, 3 / 4] [0, 1]] @ Tuple1 [1 / 4] # [Tuple2 [1 / 4] [0]]) ()
     = Inl (Exception ''Loader should return either (data, label) or (data, label, mask)'')"
    using step_fn_mask_by_arity[where encoder = example_encoder and loss = example_loss
        and element = "Tuple1 [1 / 4]" and w = "()"
        and before = "[Tuple2 [1 / 4, 3 / 4] [0, 1]]" and ls = "[2]"
        and rest = "[Tuple2 [1 / 4] [0]]"] c d
    by blast
  from a b b' c c' d d' show ?thesis by blast
qed

section \<open>Properties of MLWrapper.set\_metrics\<close>

lemma trunc_of_int: "trunc (real_of_int k) = k"
  by (simp add: trunc_def)

lemma long_eq_iff:
  "real_of_int (long x) = x \<longleftrightarrow> x \<in> \<int> \<and> - (2 ^ 63) \<le> x \<and> x < 2 ^ 63"
proof
  assume eq: "real_of_int (long x) = x"
  then have "x = real_of_int (long x)" by simp
  then have int: "x \<in> \<int>" by (metis Ints_of_int)
  then obtain k where k: "x = real_of_int k" by (auto elim: Ints_cases)
  have range: "- (2 ^ 63) \<le> k \<and> k < 2 ^ 63"
  proof (rule ccontr)
    assume "\<not> (- (2 ^ 63) \<le> k \<and> k < 2 ^ 63)"
    moreover have "long x = (if - (2 ^ 63) \<le> k \<and> k < 2 ^ 63 then k else - (2 ^ 63))"
      unfolding long_def k trunc_of_int ..
    ultimately have "long x = - (2 ^ 63)"
      by (simp only: if_False simp_thms)
    with eq k have "k = - (2 ^ 63)" by simp
    with \<open>\<not> (- (2 ^ 63) \<le> k \<and> k < 2 ^ 63)\<close> show False by simp
  qed
  then have "- (2 ^ 63) \<le> real_of_int k \<and> real_of_int k < 2 ^ 63"
    by (metis of_int_le_iff of_int_less_iff of_int_minus of_int_numeral of_int_power)
  with int k show "x \<in> \<int> \<and> - (2 ^ 63) \<le> x \<and> x < 2 ^ 63" by simp
next
  assume a: "x \<in> \<int> \<and> - (2 ^ 63) \<le> x \<and> x < 2 ^ 63"
  then obtain k where k: "x = real_of_int k" by (auto elim: Ints_cases)
  with a have "real_of_int (- (2 ^ 63)) \<le> real_of_int k" "real_of_int k < real_of_int (2 ^ 63)"
    by simp_all
  then have "- (2 ^ 63) \<le> k \<and> k < 2 ^ 63"
    by (simp only: of_int_le_iff of_int_less_iff)
  moreover have "long x = (if - (2 ^ 63) \<le> k \<and> k < 2 ^ 63 then k else - (2 ^ 63))"
    unfolding long_def k trunc_of_int ..
  ultimately have "long x = k"
    by (simp only: if_True simp_thms)
  then show "real_of_int (long x) = x"
    by (simp add: k)
qed

lemma first10_integer_iff:
  "first10_integer labels \<longleftrightarrow>
     (\<forall>x \<in> set (take 10 labels). x \<in> \<int> \<and> - (2 ^ 63) \<le> x \<and> x < 2 ^ 63)"
  by (simp add: first10_integer_def list_all_iff long_eq_iff)

lemma half_not_integer: "(1 / 2 :: real) \<notin> \<int>"
  using long_eq_iff[of "1 / 2"] by (simp add: long_def trunc_def)

text \<open>
  C5, as the code has it. Exactly two unique label values select the ranking metrics,
  with the identity as output transform for a \<open>Booster\<close> and the selection of column
  \<open>1\<close> for any other model. Otherwise, labels that are all integer-valued within the
  range of 64-bit integers, and more generally labels whose first ten entries are
  such, select \<open>Accuracy\<close> and \<open>BalancedAccuracy\<close> with the argmax transform.
  Otherwise, when one of the first ten entries is not integer-valued, the metric is
  \<open>MAE\<close>, with predictions and labels both inverse-transformed through the scaler
  when one is set. Nothing is stated for labels with an integer-valued entry outside
  the 64-bit range among the first ten.
\<close>

theorem ml_set_metrics_by_labels:
  "(n_unique labels = 2 \<longrightarrow>
      ml_metrics (ml_set_metrics self labels) =
        Some [(''PR'', average_precision_score), (''AUC'', roc_auc_score),
              (''ROC'', roc_curve), (''PRC'', precision_recall_curve)]
      \<and> ml_output_transform (ml_set_metrics self labels) =
          Some (if model self = Booster then ml_identity else select_column_1)
      \<and> ml_label_transform (ml_set_metrics self labels) = Some ml_identity)
   \<and> (n_unique labels \<noteq> 2
        \<and> (\<forall>x \<in> set labels. x \<in> \<int> \<and> - (2 ^ 63) \<le> x \<and> x < 2 ^ 63) \<longrightarrow>
      ml_metrics (ml_set_metrics self labels) =
        Some [(''Accuracy'', accuracy_score), (''BalancedAccuracy'', balanced_accuracy_score)]
      \<and> ml_output_transform (ml_set_metrics self labels) = Some argmax_last_axis
      \<and> ml_label_transform (ml_set_metrics self labels) = Some ml_identity)
   \<and> (n_unique labels \<noteq> 2
        \<and> (\<forall>x \<in> set (take 10 labels). x \<in> \<int> \<and> - (2 ^ 63) \<le> x \<and> x < 2 ^ 63) \<longrightarrow>
      ml_metrics (ml_set_metrics self labels) =
        Some [(''Accuracy'', accuracy_score), (''BalancedAccuracy'', balanced_accuracy_score)]
      \<and> ml_output_transform (ml_set_metrics self labels) = Some argmax_last_axis
      \<and> ml_label_transform (ml_set_metrics self labels) = Some ml_identity)
   \<and> (n_unique labels \<noteq> 2 \<and> (\<exists>x \<in> set (take 10 labels). x \<notin> \<int>) \<longrightarrow>
      ml_metrics (ml_set_metrics self labels) = Some [(''MAE'', mean_absolute_error)]
      \<and> ml_output_transform (ml_set_metrics self labels) =
          Some (if ml_scaler self \<noteq> None then scaler_inverse_transform else ml_identity)
      \<and> ml_label_transform (ml_set_metrics self labels) =
          Some (if ml_scaler self \<noteq> None then scaler_inverse_transform else ml_identity))
   \<and> model (ml_set_metrics self labels) = model self
   \<and> ml_scaler (ml_set_metrics self labels) = ml_scaler self"
proof -
  have 1: "n_unique labels = 2 \<longrightarrow>
      ml_metrics (ml_set_metrics self labels) =
        Some [(''PR'', average_precision_score), (''AUC'', roc_auc_score),
              (''ROC'', roc_curve), (''PRC'', precision_recall_curve)]
      \<and> ml_output_transform (ml_set_metrics self labels) =
          Some (if model self = Booster then ml_identity else select_column_1)
      \<and> ml_label_transform (ml_set_metrics self labels) = Some ml_identity"
    by (simp add: ml_set_metrics_def)
  have 3: "n_unique labels \<noteq> 2
        \<and> (\<forall>x \<in> set (take 10 labels). x \<in> \<int> \<and> - (2 ^ 63) \<le> x \<and> x < 2 ^ 63) \<longrightarrow>
      ml_metrics (ml_set_metrics self labels) =
        Some [(''Accuracy'', accuracy_score), (''BalancedAccuracy'', balanced_accuracy_score)]
      \<and> ml_output_transform (ml_set_metrics self labels) = Some argmax_last_axis
      \<and> ml_label_transform (ml_set_metrics self labels) = Some ml_identity"
    by (simp add: ml_set_metrics_def first10_integer_iff)
  have 2: "n_unique labels \<noteq> 2
        \<and> (\<forall>x \<in> set labels. x \<in> \<int> \<and> - (2 ^ 63) \<le> x \<and> x < 2 ^ 63) \<longrightarrow>
      ml_metrics (ml_set_metrics self labels) =
        Some [(''Accuracy'', accuracy_score), (''BalancedAccuracy'', balanced_accuracy_score)]
      \<and> ml_output_transform (ml_set_metrics self labels) = Some argmax_last_axis
      \<and> ml_label_transform (ml_set_metrics self labels) = Some ml_identity"
  proof (intro impI, elim conjE)
    assume u: "n_unique labels \<noteq> 2"
      and a: "\<forall>x \<in> set labels. x \<in> \<int> \<and> - (2 ^ 63) \<le> x \<and> x < 2 ^ 63"
    from a have "\<forall>x \<in> set (take 10 labels). x \<in> \<int> \<and> - (2 ^ 63) \<le> x \<and> x < 2 ^ 63"
      by (meson in_set_takeD)
    with u 3 show "ml_metrics (ml_set_metrics self labels) =
        Some [(''Accuracy'', accuracy_score), (''BalancedAccuracy'', balanced_accuracy_score)]
      \<and> ml_output_transform (ml_set_metrics self labels) = Some argmax_last_axis
      \<and> ml_label_transform (ml_set_metrics self labels) = Some ml_identity"
      by simp
  qed
  have 4: "n_unique labels \<noteq> 2 \<and> (\<exists>x \<in> set (take 10 labels). x \<notin> \<int>) \<longrightarrow>
      ml_metrics (ml_set_metrics self labels) = Some [(''MAE'', mean_absolute_error)]
      \<and> ml_output_transform (ml_set_metrics self labels) =
          Some (if ml_scaler self \<noteq> None then scaler_inverse_transform else ml_identity)
      \<and> ml_label_transform (ml_set_metrics self labels) =
          Some (if ml_scaler self \<noteq> None then scaler_inverse_transform else ml_identity)"
    by (auto simp: ml_set_metrics_def first10_integer_iff)
  have 5: "model (ml_set_metrics self labels) = model self"
    and 6: "ml_scaler (ml_set_metrics self labels) = ml_scaler self"
    by (simp_all add: ml_set_metrics_def)
  show ?thesis
    by (intro conjI) (rule 1 2 3 4 5 6)+
qed

theorem ml_set_metrics_by_labels_witness:
  "n_unique [0, 1, 1, 0] = 2
   \<and> ml_output_transform (ml_set_metrics \<lparr>model = LGBMClassifier, ml_scaler = Some (7::nat),
         ml_output_transform = None, ml_label_transform = None, ml_metrics = None\<rparr> [0, 1, 1, 0])
       = Some select_column_1
   \<and> n_unique [0, 1, 2] \<noteq> 2
   \<and> ml_output_transform (ml_set_metrics \<lparr>model = LGBMClassifier, ml_scaler = Some (7::nat),
         ml_output_transform = None, ml_label_transform = None, ml_metrics = None\<rparr> [0, 1, 2])
       = Some argmax_last_axis
   \<and> n_unique [1 / 2, 1, 2] \<noteq> 2
   \<and> ml_output_transform (ml_set_metrics \<lparr>model = LGBMClassifier, ml_scaler = Some (7::nat),
         ml_output_transform = None, ml_label_transform = None, ml_metrics = None\<rparr> [1 / 2, 1, 2])
       = Some scaler_inverse_transform"
proof -
  let ?w = "\<lparr>model = LGBMClassifier, ml_scaler = Some (7::nat),
         ml_output_transform = None, ml_label_transform = None, ml_metrics = None\<rparr>"
  have u1: "n_unique [0, 1, 1, 0] = 2" and u2: "n_unique [0, 1, 2] \<noteq> 2"
    and u3: "n_unique [1 / 2, 1, 2] \<noteq> 2"
    by (simp_all add: n_unique_def)
  have i2: "\<forall>x \<in> set [0, 1, 2 :: real]. x \<in> \<int> \<and> - (2 ^ 63) \<le> x \<and> x < 2 ^ 63"
    by simp
  have i3: "\<exists>x \<in> set (take 10 [1 / 2, 1, 2 :: real]). x \<notin> \<int>"
    using half_not_integer by simp
  have "ml_output_transform (ml_set_metrics ?w [0, 1, 1, 0]) =
          Some (if model ?w = Booster then ml_identity else select_column_1)"
    using ml_set_metrics_by_labels[of "[0, 1, 1, 0]" ?w] u1 by blast
  then have c1: "ml_output_transform (ml_set_metrics ?w [0, 1, 1, 0]) = Some select_column_1"
    by simp
  have c2: "ml_output_transform (ml_set_metrics ?w [0, 1, 2]) = Some argmax_last_axis"
    using ml_set_metrics_by_labels[of "[0, 1, 2]" ?w] u2 i2 by blast
  have "ml_output_transform (ml_set_metrics ?w [1 / 2, 1, 2]) =
          Some (if ml_scaler ?w \<noteq> None then scaler_inverse_transform else ml_identity)"
    using ml_set_metrics_by_labels[of "[1 / 2, 1, 2]" ?w] u3 i3 by blast
  then have c3: "ml_output_transform (ml_set_metrics ?w [1 / 2, 1, 2]) = Some scaler_inverse_transform"
    by simp
  from u1 u2 u3 c1 c2 c3 show ?thesis by blast
qed

text \<open>
  C5, as the spec states it, fails twice. The eleven labels \<open>0, 1, ..., 9, 0.5\<close> are
  not all integer-valued and have more than two unique values, yet the accuracy
  metrics are selected and not the regression metric. The labels \<open>10^30, 1, 2\<close> are
  all integer-valued and have three unique values, yet the first overflows the
  conversion to a 64-bit integer, and the regression metric is selected and not the
  accuracy metrics.
\<close>

theorem integer_prefix_selects_accuracy:
  "n_unique [0, 1, 2, 3, 4, 5, 6, 7, 8, 9, 1 / 2] \<noteq> 2
   \<and> (1 / 2 :: real) \<in> set [0, 1, 2, 3, 4, 5, 6, 7, 8, 9, 1 / 2]
   \<and> (1 / 2 :: real) \<notin> \<int>
   \<and> ml_metrics (ml_set_metrics \<lparr>model = LGBMRegressor, ml_scaler = (None :: nat option),
         ml_output_transform = None, ml_label_transform = None, ml_metrics = None\<rparr>
         [0, 1, 2, 3, 4, 5, 6, 7, 8, 9, 1 / 2])
       = Some [(''Accuracy'', accuracy_score), (''BalancedAccuracy'', balanced_accuracy_score)]
   \<and> ml_metrics (ml_set_metrics \<lparr>model = LGBMRegressor, ml_scaler = (None :: nat option),
         ml_output_transform = None, ml_label_transform = None, ml_metrics = None\<rparr>
         [0, 1, 2, 3, 4, 5, 6, 7, 8, 9, 1 / 2])
       \<noteq> Some [(''MAE'', mean_absolute_error)]
   \<and> n_unique [10 ^ 30, 1, 2] \<noteq> 2
   \<and> (10 :: real) ^ 30 \<in> \<int> \<and> (1 :: real) \<in> \<int> \<and> (2 :: real) \<in> \<int>
   \<and> ml_metrics (ml_set_metrics \<lparr>model = LGBMRegressor, ml_scaler = (None :: nat option),
         ml_output_transform = None, ml_label_transform = None, ml_metrics = None\<rparr>
         [10 ^ 30, 1, 2])
       = Some [(''MAE'', mean_absolute_error)]
   \<and> ml_metrics (ml_set_metrics \<lparr>model = LGBMRegressor, ml_scaler = (None :: nat option),
         ml_output_transform = None, ml_label_transform = None, ml_metrics = None\<rparr>
         [10 ^ 30, 1, 2])
       \<noteq> Some [(''Accuracy'', accuracy_score), (''BalancedAccuracy'', balanced_accuracy_score)]"
  using half_not_integer
  by (simp add: ml_set_metrics_def n_unique_def first10_integer_iff)

text \<open>
  C9, as the code has it. For labels with three or more unique values whose first ten
  entries are integer-valued within the range of 64-bit integers the accuracy metrics
  are selected, whatever comes after the tenth entry. For labels that do not have
  exactly two unique values and have an entry among the first ten that is not
  integer-valued the regression metric is selected. Two label vectors, neither with
  exactly two unique values, that agree on their first ten entries give the same
  result. Nothing is stated for labels with an integer-valued entry outside the 64-bit
  range among the first ten.
\<close>

theorem ml_set_metrics_first_ten:
  "(3 \<le> n_unique labels
      \<and> (\<forall>x \<in> set (take 10 labels). x \<in> \<int> \<and> - (2 ^ 63) \<le> x \<and> x < 2 ^ 63) \<longrightarrow>
      ml_metrics (ml_set_metrics self labels) =
        Some [(''Accuracy'', accuracy_score), (''BalancedAccuracy'', balanced_accuracy_score)])
   \<and> (n_unique labels \<noteq> 2 \<and> (\<exists>x \<in> set (take 10 labels). x \<notin> \<int>) \<longrightarrow>
      ml_metrics (ml_set_metrics self labels) = Some [(''MAE'', mean_absolute_error)])
   \<and> (n_unique labels \<noteq> 2 \<and> n_unique labels' \<noteq> 2 \<and> take 10 labels = take 10 labels' \<longrightarrow>
      ml_set_metrics self labels = ml_set_metrics self labels')"
proof -
  have 1: "3 \<le> n_unique labels
      \<and> (\<forall>x \<in> set (take 10 labels). x \<in> \<int> \<and> - (2 ^ 63) \<le> x \<and> x < 2 ^ 63) \<longrightarrow>
      ml_metrics (ml_set_metrics self labels) =
        Some [(''Accuracy'', accuracy_score), (''BalancedAccuracy'', balanced_accuracy_score)]"
    by (simp add: ml_set_metrics_def first10_integer_iff)
  have 2: "n_unique labels \<noteq> 2 \<and> (\<exists>x \<in> set (take 10 labels). x \<notin> \<int>) \<longrightarrow>
      ml_metrics (ml_set_metrics self labels) = Some [(''MAE'', mean_absolute_error)]"
    by (auto simp: ml_set_metrics_def first10_integer_iff)
  have 3: "n_unique labels \<noteq> 2 \<and> n_unique labels' \<noteq> 2 \<and> take 10 labels = take 10 labels' \<longrightarrow>
      ml_set_metrics self labels = ml_set_metrics self labels'"
    by (simp add: ml_set_metrics_def first10_integer_def)
  show ?thesis
    by (intro conjI) (rule 1 2 3)+
qed

theorem ml_set_metrics_first_ten_witness:
  "3 \<le> n_unique [0, 1, 2, 3, 4, 5, 6, 7, 8, 9, 1 / 2]
   \<and> ml_metrics (ml_set_metrics \<lparr>model = LGBMRegressor, ml_scaler = (None :: nat option),
         ml_output_transform = None, ml_label_transform = None, ml_metrics = None\<rparr>
         [0, 1, 2, 3, 4, 5, 6, 7, 8, 9, 1 / 2])
       = Some [(''Accuracy'', accuracy_score), (''BalancedAccuracy'', balanced_accuracy_score)]
   \<and> n_unique [1 / 2, 1, 2] \<noteq> 2
   \<and> ml_metrics (ml_set_metrics \<lparr>model = LGBMRegressor, ml_scaler = (None :: nat option),
         ml_output_transform = None, ml_label_transform = None, ml_metrics = None\<rparr>
         [1 / 2, 1, 2])
       = Some [(''MAE'', mean_absolute_error)]
   \<and> ml_set_metrics \<lparr>model = LGBMRegressor, ml_scaler = (None :: nat option),
         ml_output_transform = None, ml_label_transform = None, ml_metrics = None\<rparr>
         [0, 1, 2, 3, 4, 5, 6, 7, 8, 9, 1 / 2]
     = ml_set_metrics \<lparr>model = LGBMRegressor, ml_scaler = (None :: nat option),
         ml_output_transform = None, ml_label_transform = None, ml_metrics = None\<rparr>
         [0, 1, 2, 3, 4, 5, 6, 7, 8, 9, 3]"
proof -
  let ?w = "\<lparr>model = LGBMRegressor, ml_scaler = (None :: nat option),
         ml_output_transform = None, ml_label_transform = None, ml_metrics = None\<rparr>"
  let ?a = "[0, 1, 2, 3, 4, 5, 6, 7, 8, 9, 1 / 2 :: real]"
  let ?b = "[1 / 2, 1, 2 :: real]"
  let ?c = "[0, 1, 2, 3, 4, 5, 6, 7, 8, 9, 3 :: real]"
  have u1: "3 \<le> n_unique ?a" and u2: "n_unique ?b \<noteq> 2"
    and u3: "n_unique ?a \<noteq> 2" and u4: "n_unique ?c \<noteq> 2"
    by (simp_all add: n_unique_def)
  have i1: "\<forall>x \<in> set (take 10 ?a). x \<in> \<int> \<and> - (2 ^ 63) \<le> x \<and> x < 2 ^ 63"
    by simp
  have i2: "\<exists>x \<in> set (take 10 ?b). x \<notin> \<int>"
    using half_not_integer by simp
  have t: "take 10 ?a = take 10 ?c"
    by simp
  have c1: "ml_metrics (ml_set_metrics ?w ?a) =
        Some [(''Accuracy'', accuracy_score), (''BalancedAccuracy'', balanced_accuracy_score)]"
    using ml_set_metrics_first_ten[of ?a ?w] u1 i1 by blast
  have c2: "ml_metrics (ml_set_metrics ?w ?b) = Some [(''MAE'', mean_absolute_error)]"
    using ml_set_metrics_first_ten[of ?b ?w] u2 i2 by blast
  have c3: "ml_set_metrics ?w ?a = ml_set_metrics ?w ?c"
    using ml_set_metrics_first_ten[of ?a ?w ?c] u3 u4 t by blast
  from u1 u2 c1 c2 c3 show ?thesis by blast
qed

text \<open>
  C9, as the spec states it, fails twice. The labels \<open>0.5, 1.5\<close> have an entry among
  the first ten that is not integer-valued, but they have exactly two unique values,
  so the ranking metrics are selected and not the regression metric. The labels
  \<open>-10^30, 1, 2\<close> have three unique values and are integer-valued, but the first
  overflows the conversion to a 64-bit integer, so the regression metric is selected
  and not the accuracy metrics.
\<close>

theorem two_values_override_non_integer:
  "(1 / 2 :: real) \<in> set (take 10 [1 / 2, 3 / 2])
   \<and> (1 / 2 :: real) \<notin> \<int>
   \<and> ml_metrics (ml_set_metrics \<lparr>model = LGBMClassifier, ml_scaler = (None :: nat option),
         ml_output_transform = None, ml_label_transform = None, ml_metrics = None\<rparr>
         [1 / 2, 3 / 2])
       = Some [(''PR'', average_precision_score), (''AUC'', roc_auc_score),
               (''ROC'', roc_curve), (''PRC'', precision_recall_curve)]
   \<and> ml_metrics (ml_set_metrics \<lparr>model = LGBMClassifier, ml_scaler = (None :: nat option),
         ml_output_transform = None, ml_label_transform = None, ml_metrics = None\<rparr>
         [1 / 2, 3 / 2])
       \<noteq> Some [(''MAE'', mean_absolute_error)]
   \<and> 3 \<le> n_unique [- (10 ^ 30), 1, 2]
   \<and> - ((10 :: real) ^ 30) \<in> \<int> \<and> (1 :: real) \<in> \<int> \<and> (2 :: real) \<in> \<int>
   \<and> ml_metrics (ml_set_metrics \<lparr>model = LGBMClassifier, ml_scaler = (None :: nat option),
         ml_output_transform = None, ml_label_transform = None, ml_metrics = None\<rparr>
         [- (10 ^ 30), 1, 2])
       = Some [(''MAE'', mean_absolute_error)]
   \<and> ml_metrics (ml_set_metrics \<lparr>model = LGBMClassifier, ml_scaler = (None :: nat option),
         ml_output_transform = None, ml_label_transform = None, ml_metrics = None\<rparr>
         [- (10 ^ 30), 1, 2])
       \<noteq> Some [(''Accuracy'', accuracy_score), (''BalancedAccuracy'', balanced_accuracy_score)]"
  using half_not_integer
  by (simp add: ml_set_metrics_def n_unique_def first10_integer_iff)

section \<open>Properties of the recipe steps\<close>

subsection \<open>fit\_transform\<close>

text \<open>
  C7. For every step, of any class, and every table, calling \<open>fit_transform\<close> is
  calling \<open>fit\<close> and then \<open>transform\<close>: both sequences of calls end with the same
  step (resolved columns, trained flag, fitted scalers or transformers), the same
  table and the same returned value or exception.
\<close>

theorem fit_transform_is_fit_then_transform:
  "run_calls lib [FitTransform] (self, d) = run_calls lib [Fit, Transform] (self, d)
   \<and> fit_transform lib self d =
       (fst (fit lib self d),
        case snd (fit lib self d) of
          Some e \<Rightarrow> Inl e
        | None \<Rightarrow> transform lib (fst (fit lib self d)) d)"
proof -
  obtain self' r where f: "fit lib self d = (self', r)"
    by (cases "fit lib self d") auto
  show ?thesis
  proof (cases r)
    case None
    with f show ?thesis
      by (cases "transform lib self' d") (auto simp: fit_transform_def)
  next
    case (Some e)
    with f show ?thesis
      by (simp add: fit_transform_def)
  qed
qed

subsection \<open>The trained flag and the resolved columns\<close>





















end
